theory Spec2Isabelle
  imports Main
begin

section \<open>The persisted schema\<close>

text \<open>
  The tables of the initial migration (\<^verbatim>\<open>CREATE TABLE public.profiles\<close>, \<^verbatim>\<open>bakeries\<close>,
  \<^verbatim>\<open>cakes\<close>, \<^verbatim>\<open>orders\<close>). A table is the list of its rows. Identifiers are the
  opaque \<^verbatim>\<open>UUID\<close> values of the schema. \<^verbatim>\<open>DECIMAL(10,2)\<close> money columns are held as an
  integer number of cents, which is what a scale-2 decimal is; the JavaScript double that
  carries the product to the store between line 108 and line 115 of the order page is not
  modelled. A \<^verbatim>\<open>TIMESTAMPTZ\<close> value is an instant, held as a number. Columns that no
  operation below reads or writes after creation (\<^verbatim>\<open>created_at\<close>, \<^verbatim>\<open>updated_at\<close>, phone,
  description, image, category, allergens, preparation time) are left out.
\<close>

type_synonym uuid = nat

type_synonym timestamptz = int

datatype user_role = Customer | Seller

record profile_row =
  p_id :: uuid
  p_user_id :: uuid
  p_role :: user_role
  p_display_name :: "string option"
  p_email :: "string option"

record bakery_row =
  b_id :: uuid
  b_seller_id :: uuid
  b_name :: string

record cake_row =
  c_id :: uuid
  c_bakery_id :: uuid
  c_name :: string
  c_price :: int
  c_available :: "bool option"

record order_row =
  o_id :: uuid
  o_customer_id :: uuid
  o_cake_id :: uuid
  o_bakery_id :: uuid
  o_quantity :: int
  o_total_amount :: int
  o_special_instructions :: "string option"
  o_delivery_type :: string
  o_delivery_address :: "string option"
  o_preferred_delivery_time :: "timestamptz option"
  o_status :: string
  o_payment_status :: string
  o_stripe_session_id :: "string option"

record database =
  profiles :: "profile_row list"
  bakeries :: "bakery_row list"
  cakes :: "cake_row list"
  orders :: "order_row list"

text \<open>The errors the store hands back to the client, which the pages throw and show as a toast.\<close>

datatype store_error =
    NoSingleRow
  | NumericOutOfRange string
  | InvalidDatetimeFormat string
  | RlsViolation string
  | CheckViolation string
  | UniqueViolation string
  | ForeignKeyViolation string
  | InvalidEnumValue string

subsection \<open>Column types and CHECK constraints of \<^verbatim>\<open>orders\<close>\<close>

definition int4_range :: "int \<Rightarrow> bool" where
  "int4_range n \<longleftrightarrow> - 2147483648 \<le> n \<and> n \<le> 2147483647"

text \<open>\<^verbatim>\<open>DECIMAL(10,2)\<close>: at most ten digits, two of them after the point.\<close>

definition decimal_10_2_range :: "int \<Rightarrow> bool" where
  "decimal_10_2_range cents \<longleftrightarrow> - 10000000000 < cents \<and> cents < 10000000000"

text \<open>\<^verbatim>\<open>CHECK (delivery_type IN ('pickup', 'delivery'))\<close>\<close>

definition delivery_type_check :: "string list" where
  "delivery_type_check = [''pickup'', ''delivery'']"

text \<open>\<^verbatim>\<open>CHECK (status IN ('pending', 'confirmed', 'preparing', 'ready', 'completed', 'cancelled'))\<close>\<close>

definition status_check :: "string list" where
  "status_check = [''pending'', ''confirmed'', ''preparing'', ''ready'', ''completed'', ''cancelled'']"

text \<open>\<^verbatim>\<open>CHECK (payment_status IN ('pending', 'paid', 'failed', 'refunded'))\<close>\<close>

definition payment_status_check :: "string list" where
  "payment_status_check = [''pending'', ''paid'', ''failed'', ''refunded'']"

subsection \<open>Row-level security policies\<close>

text \<open>
  The predicate shared by the seller policies on \<^verbatim>\<open>cakes\<close> and \<^verbatim>\<open>orders\<close>:
  \<^verbatim>\<open>EXISTS (SELECT 1 FROM bakeries b JOIN profiles p ON b.seller_id = p.id
    WHERE b.id = <row>.bakery_id AND p.user_id = auth.uid() AND p.role = 'seller')\<close>.
  The first argument is \<^verbatim>\<open>auth.uid()\<close>, absent for an anonymous caller.
\<close>

definition seller_owns :: "uuid option \<Rightarrow> database \<Rightarrow> uuid \<Rightarrow> bool" where
  "seller_owns uid db bakery_id \<longleftrightarrow>
     list_ex (\<lambda>b. list_ex (\<lambda>p. b_seller_id b = p_id p \<and> b_id b = bakery_id
                               \<and> Some (p_user_id p) = uid \<and> p_role p = Seller)
                        (profiles db))
             (bakeries db)"

text \<open>
  \<^verbatim>\<open>"Customers can create orders" FOR INSERT WITH CHECK (EXISTS (SELECT 1 FROM profiles
    WHERE profiles.id = orders.customer_id AND profiles.user_id = auth.uid()))\<close>
\<close>

definition customers_can_create_orders :: "uuid option \<Rightarrow> database \<Rightarrow> order_row \<Rightarrow> bool" where
  "customers_can_create_orders uid db r \<longleftrightarrow>
     list_ex (\<lambda>p. p_id p = o_customer_id r \<and> Some (p_user_id p) = uid) (profiles db)"

text \<open>
  Reading \<^verbatim>\<open>cakes\<close>: the permissive policies \<^verbatim>\<open>"Anyone can view available cakes"\<close>
  (\<^verbatim>\<open>available = true\<close>) and the two seller policies, any one of which admits the row.
\<close>

definition cakes_select_policy :: "uuid option \<Rightarrow> database \<Rightarrow> cake_row \<Rightarrow> bool" where
  "cakes_select_policy uid db c \<longleftrightarrow>
     c_available c = Some True \<or> seller_owns uid db (c_bakery_id c)"

subsection \<open>Store operations\<close>

text \<open>\<^verbatim>\<open>.single()\<close>: the request fails unless exactly one row comes back.\<close>

fun single :: "'a list \<Rightarrow> store_error + 'a" where
  "single [x] = Inr x"
| "single _ = Inl NoSingleRow"

text \<open>
  The object a client passes to \<^verbatim>\<open>from('orders').insert(...)\<close>, as the order page builds
  it: every column but \<^verbatim>\<open>id\<close> and \<^verbatim>\<open>stripe_session_id\<close>, which take their defaults
  (\<^verbatim>\<open>gen_random_uuid()\<close> and NULL). The preferred time travels as text.
\<close>

record order_values =
  v_customer_id :: uuid
  v_cake_id :: uuid
  v_bakery_id :: uuid
  v_quantity :: int
  v_total_amount :: int
  v_delivery_type :: string
  v_delivery_address :: "string option"
  v_preferred_delivery_time :: "string option"
  v_special_instructions :: "string option"
  v_status :: string
  v_payment_status :: string

text \<open>
  Converting the text sent for a \<^verbatim>\<open>TIMESTAMPTZ\<close> column. The conversion is the store's own
  input function, which is not code of the repository: it is the parameter
  \<open>timestamptz_in\<close>, giving the instant a text denotes, or nothing where the store refuses
  the text (invalid datetime format). NULL stays NULL.
\<close>

fun timestamptz_column ::
  "(string \<Rightarrow> timestamptz option) \<Rightarrow> string option \<Rightarrow> store_error + timestamptz option" where
  "timestamptz_column timestamptz_in None = Inr None"
| "timestamptz_column timestamptz_in (Some sent) =
     (case timestamptz_in sent of
        None \<Rightarrow> Inl (InvalidDatetimeFormat sent)
      | Some t \<Rightarrow> Inr (Some t))"

text \<open>The row the store builds from the values, the new id and the converted time.\<close>

definition orders_row :: "uuid \<Rightarrow> order_values \<Rightarrow> timestamptz option \<Rightarrow> order_row" where
  "orders_row newId v time =
     \<lparr>o_id = newId,
      o_customer_id = v_customer_id v,
      o_cake_id = v_cake_id v,
      o_bakery_id = v_bakery_id v,
      o_quantity = v_quantity v,
      o_total_amount = v_total_amount v,
      o_special_instructions = v_special_instructions v,
      o_delivery_type = v_delivery_type v,
      o_delivery_address = v_delivery_address v,
      o_preferred_delivery_time = time,
      o_status = v_status v,
      o_payment_status = v_payment_status v,
      o_stripe_session_id = None\<rparr>"

text \<open>
  \<^verbatim>\<open>INSERT INTO orders\<close> by an authenticated client: the values are converted to the column
  types (quantity, total amount, preferred time), the insert
  policy is checked, then the CHECK constraints, the primary key and the three foreign
  keys. A failure leaves the table as it was. \<open>newId\<close> is the value
  \<^verbatim>\<open>gen_random_uuid()\<close> gives the new row.
\<close>

definition orders_insert ::
  "(string \<Rightarrow> timestamptz option) \<Rightarrow> uuid option \<Rightarrow> uuid \<Rightarrow> order_values \<Rightarrow> database
     \<Rightarrow> store_error + database" where
  "orders_insert timestamptz_in uid newId v db =
     (if \<not> int4_range (v_quantity v) then Inl (NumericOutOfRange ''quantity'')
      else if \<not> decimal_10_2_range (v_total_amount v)
        then Inl (NumericOutOfRange ''total_amount'')
      else
        (case timestamptz_column timestamptz_in (v_preferred_delivery_time v) of
           Inl e \<Rightarrow> Inl e
         | Inr time \<Rightarrow>
             (let r = orders_row newId v time in
              if \<not> customers_can_create_orders uid db r then Inl (RlsViolation ''orders'')
              else if o_delivery_type r \<notin> set delivery_type_check
                then Inl (CheckViolation ''orders_delivery_type_check'')
              else if o_payment_status r \<notin> set payment_status_check
                then Inl (CheckViolation ''orders_payment_status_check'')
              else if o_status r \<notin> set status_check
                then Inl (CheckViolation ''orders_status_check'')
              else if list_ex (\<lambda>row. o_id row = o_id r) (orders db)
                then Inl (UniqueViolation ''orders_pkey'')
              else if \<not> list_ex (\<lambda>p. p_id p = o_customer_id r) (profiles db)
                then Inl (ForeignKeyViolation ''orders_customer_id_fkey'')
              else if \<not> list_ex (\<lambda>c. c_id c = o_cake_id r) (cakes db)
                then Inl (ForeignKeyViolation ''orders_cake_id_fkey'')
              else if \<not> list_ex (\<lambda>b. b_id b = o_bakery_id r) (bakeries db)
                then Inl (ForeignKeyViolation ''orders_bakery_id_fkey'')
              else Inr (db\<lparr>orders := orders db @ [r]\<rparr>))))"

section \<open>The seller's order page\<close>

text \<open>
  \<^verbatim>\<open>updateOrderStatus(orderId, newStatus)\<close>:
  \<^verbatim>\<open>supabase.from('orders').update({ status: newStatus }).eq('id', orderId)\<close>.
  The statement touches the rows with that id that the policy
  \<^verbatim>\<open>"Sellers can update order status"\<close> lets the caller update; each new row must pass the
  status CHECK, and one violation aborts the whole statement. With no row touched the
  statement succeeds and changes nothing. On success the page shows the toast
  "Order status updated", on an error "Error updating order".
\<close>

datatype update_outcome = OrderStatusUpdated | ErrorUpdatingOrder store_error

definition updateOrderStatus ::
  "uuid option \<Rightarrow> uuid \<Rightarrow> string \<Rightarrow> database \<Rightarrow> update_outcome \<times> database" where
  "updateOrderStatus session orderId newStatus db =
     (let touched = (\<lambda>row. o_id row = orderId \<and> seller_owns session db (o_bakery_id row)) in
      if list_ex touched (orders db) \<and> newStatus \<notin> set status_check
        then (ErrorUpdatingOrder (CheckViolation ''orders_status_check''), db)
      else (OrderStatusUpdated,
            db\<lparr>orders := map (\<lambda>row. if touched row then row\<lparr>o_status := newStatus\<rparr> else row) (orders db)\<rparr>))"

text \<open>
  Any number of later status updates, by any callers, each run on the store the previous
  one left (whether it succeeded or not).
\<close>

fun updateOrderStatus_calls ::
  "(uuid option \<times> uuid \<times> string) list \<Rightarrow> database \<Rightarrow> database" where
  "updateOrderStatus_calls [] db = db"
| "updateOrderStatus_calls ((session, orderId, newStatus) # calls) db =
     updateOrderStatus_calls calls (snd (updateOrderStatus session orderId newStatus db))"

text \<open>The \<^verbatim>\<open>total_amount\<close> of every stored order with a given id.\<close>

definition total_amounts_of :: "uuid \<Rightarrow> database \<Rightarrow> int list" where
  "total_amounts_of orderId db =
     map o_total_amount (filter (\<lambda>row. o_id row = orderId) (orders db))"

section \<open>The seller's cake page\<close>

text \<open>
  \<^verbatim>\<open>toggleAvailability(cake)\<close>:
  \<^verbatim>\<open>supabase.from('cakes').update({ available: !cake.available }).eq('id', cake.id)\<close>.
  The value written is computed from the copy of the cake the page holds; the column is
  nullable, and \<^verbatim>\<open>!null\<close> is \<^verbatim>\<open>true\<close>. The policy \<^verbatim>\<open>"Sellers can manage their cakes"\<close>
  restricts the rows touched; \<^verbatim>\<open>cakes.available\<close> carries no constraint, so the statement
  cannot fail. No row is inserted or deleted.
\<close>

definition toggleAvailability :: "uuid option \<Rightarrow> cake_row \<Rightarrow> database \<Rightarrow> database" where
  "toggleAvailability session cake db =
     db\<lparr>cakes := map (\<lambda>c. if c_id c = c_id cake \<and> seller_owns session db (c_bakery_id c)
                             then c\<lparr>c_available := Some (c_available cake \<noteq> Some True)\<rparr>
                             else c)
                       (cakes db)\<rparr>"

section \<open>The customer's order page\<close>

text \<open>
  \<^verbatim>\<open>fetchCake\<close>: \<^verbatim>\<open>from('cakes').select(...).eq('id', cakeId).eq('available', true).single()\<close>.
  Any error is caught: it is written to the console, the toast "Cake not found" is shown
  and the page navigates to \<^verbatim>\<open>/browse\<close>, the held cake staying \<^verbatim>\<open>null\<close>.
  \<open>CakeNotFound\<close> carries the error that is logged.
\<close>

datatype fetch_outcome = CakeLoaded cake_row | CakeNotFound store_error

definition fetchCake :: "uuid option \<Rightarrow> uuid \<Rightarrow> database \<Rightarrow> fetch_outcome" where
  "fetchCake session cakeId db =
     (case single (filter (\<lambda>c. cakes_select_policy session db c \<and> c_id c = cakeId
                                 \<and> c_available c = Some True) (cakes db)) of
        Inl e \<Rightarrow> CakeNotFound e
      | Inr data \<Rightarrow> CakeLoaded data)"

text \<open>The state of the page (\<^verbatim>\<open>useState\<close>): the held cake and the order form's fields.\<close>

record order_page =
  cake :: "cake_row option"
  quantity :: int
  deliveryType :: string
  deliveryAddress :: string
  preferredDeliveryTime :: string
  specialInstructions :: string


text \<open>\<^verbatim>\<open>s || null\<close> on a string: the empty string is falsy.\<close>

definition or_null :: "string \<Rightarrow> string option" where
  "or_null s = (if s = [] then None else Some s)"

text \<open>
  \<^verbatim>\<open>handleSubmitOrder\<close>. It returns at once when no cake is held; asks for the signed-in
  user (toast "Authentication required" when there is none); reads the caller's profile
  with \<^verbatim>\<open>.single()\<close> under the policy \<^verbatim>\<open>auth.uid() = user_id\<close>; computes
  \<^verbatim>\<open>cake.price * quantity\<close> from the held cake (\<open>held\<close>); and inserts the order. Every
  error thrown on the way ends in the toast "Error placing order". The first argument is
  the store's conversion of a text to a timestamp, and \<open>newId\<close> the id the store gives the
  new row.
\<close>

datatype submit_outcome =
    NotSubmitted
  | AuthenticationRequired
  | ErrorPlacingOrder store_error
  | OrderPlaced

definition handleSubmitOrder ::
  "(string \<Rightarrow> timestamptz option) \<Rightarrow> order_page \<Rightarrow> uuid option \<Rightarrow> uuid \<Rightarrow> database
     \<Rightarrow> submit_outcome \<times> database" where
  "handleSubmitOrder timestamptz_in st session newId db =
     (case cake st of
        None \<Rightarrow> (NotSubmitted, db)
      | Some held \<Rightarrow>
          (case session of
             None \<Rightarrow> (AuthenticationRequired, db)
           | Some user \<Rightarrow>
               (case single (filter (\<lambda>p. Some (p_user_id p) = session \<and> p_user_id p = user)
                                    (profiles db)) of
                  Inl profileError \<Rightarrow> (ErrorPlacingOrder profileError, db)
                | Inr profile \<Rightarrow>
                    (let totalAmount = c_price held * quantity st in
                     case orders_insert timestamptz_in session newId
                            \<lparr>v_customer_id = p_id profile,
                             v_cake_id = c_id held,
                             v_bakery_id = c_bakery_id held,
                             v_quantity = quantity st,
                             v_total_amount = totalAmount,
                             v_delivery_type = deliveryType st,
                             v_delivery_address =
                               (if deliveryType st = ''delivery''
                                then Some (deliveryAddress st) else None),
                             v_preferred_delivery_time = or_null (preferredDeliveryTime st),
                             v_special_instructions = or_null (specialInstructions st),
                             v_status = ''pending'',
                             v_payment_status = ''pending''\<rparr> db of
                       Inl error \<Rightarrow> (ErrorPlacingOrder error, db)
                     | Inr db' \<Rightarrow> (OrderPlaced, db')))))"

section \<open>Account provisioning\<close>

text \<open>
  The trigger \<^verbatim>\<open>on_auth_user_created AFTER INSERT ON auth.users\<close> runs
  \<^verbatim>\<open>handle_new_user()\<close>, as the second migration redefines it, on the new account row
  \<^verbatim>\<open>NEW\<close>:
  \<^verbatim>\<open>INSERT INTO public.profiles (user_id, display_name, email, role) VALUES (NEW.id,
    COALESCE(NEW.raw_user_meta_data ->> 'display_name', NEW.email), NEW.email,
    COALESCE((NEW.raw_user_meta_data ->> 'role')::public.user_role, 'customer'))\<close>.
  The metadata is read through \<^verbatim>\<open>->>\<close>, which gives the text under a key or NULL.
  The cast to the enum fails on any text that is not one of its two labels, and the
  insert is subject to the primary key and to \<^verbatim>\<open>user_id ... UNIQUE\<close>; the function is
  \<^verbatim>\<open>SECURITY DEFINER\<close>, so no policy applies. An error aborts the sign-up.
\<close>

record auth_user =
  u_id :: uuid
  u_email :: "string option"
  raw_user_meta_data :: "string \<Rightarrow> string option"

definition user_role_cast :: "string \<Rightarrow> store_error + user_role" where
  "user_role_cast s =
     (if s = ''customer'' then Inr Customer
      else if s = ''seller'' then Inr Seller
      else Inl (InvalidEnumValue s))"

definition profiles_insert :: "profile_row \<Rightarrow> database \<Rightarrow> store_error + database" where
  "profiles_insert r db =
     (if list_ex (\<lambda>p. p_id p = p_id r) (profiles db) then Inl (UniqueViolation ''profiles_pkey'')
      else if list_ex (\<lambda>p. p_user_id p = p_user_id r) (profiles db)
        then Inl (UniqueViolation ''profiles_user_id_key'')
      else Inr (db\<lparr>profiles := profiles db @ [r]\<rparr>))"

definition handle_new_user :: "uuid \<Rightarrow> auth_user \<Rightarrow> database \<Rightarrow> store_error + database" where
  "handle_new_user newId NEW db =
     (case (case raw_user_meta_data NEW ''role'' of
              None \<Rightarrow> Inr Customer
            | Some r \<Rightarrow> user_role_cast r) of
        Inl e \<Rightarrow> Inl e
      | Inr role \<Rightarrow>
          profiles_insert
            \<lparr>p_id = newId,
             p_user_id = u_id NEW,
             p_role = role,
             p_display_name = (case raw_user_meta_data NEW ''display_name'' of
                                 Some d \<Rightarrow> Some d
                               | None \<Rightarrow> u_email NEW),
             p_email = u_email NEW\<rparr> db)"

section \<open>Example data\<close>

text \<open>
  A customer (principal 101, profile 1), a seller (principal 102, profile 2) with the bakery
  "Sweet Treats" (10) and its cake "Chocolate Cake" (20) priced 25.00, and a second seller
  (principal 103, profile 3) without a bakery.
\<close>

definition demo_profiles :: "profile_row list" where
  "demo_profiles =
     [\<lparr>p_id = 1, p_user_id = 101, p_role = Customer, p_display_name = Some ''Ann'',
       p_email = Some ''ann@example.com''\<rparr>,
      \<lparr>p_id = 2, p_user_id = 102, p_role = Seller, p_display_name = Some ''Bo'',
       p_email = Some ''bo@example.com''\<rparr>,
      \<lparr>p_id = 3, p_user_id = 103, p_role = Seller, p_display_name = None,
       p_email = Some ''cy@example.com''\<rparr>]"

definition demo_cake :: cake_row where
  "demo_cake = \<lparr>c_id = 20, c_bakery_id = 10, c_name = ''Chocolate Cake'', c_price = 2500,
                c_available = Some True\<rparr>"

definition demo_order :: "string \<Rightarrow> order_row" where
  "demo_order st = \<lparr>o_id = 30, o_customer_id = 1, o_cake_id = 20, o_bakery_id = 10,
     o_quantity = 2, o_total_amount = 5000, o_special_instructions = None,
     o_delivery_type = ''pickup'', o_delivery_address = None,
     o_preferred_delivery_time = None, o_status = st, o_payment_status = ''pending'',
     o_stripe_session_id = None\<rparr>"

definition demo_db :: "order_row list \<Rightarrow> database" where
  "demo_db os = \<lparr>profiles = demo_profiles,
                  bakeries = [\<lparr>b_id = 10, b_seller_id = 2, b_name = ''Sweet Treats''\<rparr>],
                  cakes = [demo_cake], orders = os\<rparr>"

text \<open>The order page as the customer fills it in: two cakes, to be picked up.\<close>

definition demo_page :: order_page where
  "demo_page = \<lparr>cake = Some demo_cake, quantity = 2, deliveryType = ''pickup'',
                deliveryAddress = [], preferredDeliveryTime = [], specialInstructions = []\<rparr>"

text \<open>The same store after the seller has switched the cake off.\<close>

definition demo_db_unavailable :: database where
  "demo_db_unavailable = (demo_db [])\<lparr>cakes := [demo_cake\<lparr>c_available := Some False\<rparr>]\<rparr>"

text \<open>The same store after the seller has edited the cake's price to 30.00.\<close>

definition demo_db_repriced :: database where
  "demo_db_repriced = (demo_db [])\<lparr>cakes := [demo_cake\<lparr>c_price := 3000\<rparr>]\<rparr>"

text \<open>
  An example of the store's text conversion: it knows one text, the value a
  \<^verbatim>\<open>datetime-local\<close> input gives for 7 August 2025, 10:00, and refuses every other.
\<close>

definition demo_timestamptz_in :: "string \<Rightarrow> timestamptz option" where
  "demo_timestamptz_in sent =
     (if sent = ''2025-08-07T10:00'' then Some 1754560800 else None)"

text \<open>A new account that signed up as a seller and gave no display name.\<close>

definition demo_new_user :: auth_user where
  "demo_new_user = \<lparr>u_id = 104, u_email = Some ''dee@example.com'',
                    raw_user_meta_data = [''role'' \<mapsto> ''seller'']\<rparr>"

section \<open>Facts about the store operations\<close>

lemma seller_owns_orders_update [simp]:
  "seller_owns uid (db\<lparr>orders := os\<rparr>) b = seller_owns uid db b"
  by (simp add: seller_owns_def)

lemma demo_seller_owns: "seller_owns (Some 102) (demo_db os) 10"
  by (simp add: seller_owns_def demo_db_def demo_profiles_def)

lemma demo_db_simps:
  "profiles (demo_db os) = demo_profiles" "orders (demo_db os) = os"
  "cakes (demo_db os) = [demo_cake]"
  "bakeries (demo_db os) = [\<lparr>b_id = 10, b_seller_id = 2, b_name = ''Sweet Treats''\<rparr>]"
  by (simp_all add: demo_db_def)

lemma demo_db_orders_update: "(demo_db os)\<lparr>orders := os'\<rparr> = demo_db os'"
  by (simp add: demo_db_def)

lemma seller_owns_cakes_update [simp]:
  "seller_owns uid (db\<lparr>cakes := cs\<rparr>) b = seller_owns uid db b"
  by (simp add: seller_owns_def)

lemma not_list_ex_filter: "\<not> list_ex P xs \<Longrightarrow> filter P xs = []"
  by (induction xs) auto

lemma filter_none: "(\<And>x. x \<in> set xs \<Longrightarrow> \<not> P x) \<Longrightarrow> filter P xs = []"
  by (induction xs) auto

lemma timestamptz_column_Inr:
  assumes "timestamptz_column timestamptz_in sent = Inr time"
  shows "time = (case sent of None \<Rightarrow> None | Some t \<Rightarrow> timestamptz_in t)"
    and "sent \<noteq> None \<Longrightarrow> time \<noteq> None"
  using assms by (cases sent; auto split: option.splits)+

lemma orders_insert_Inr:
  assumes "orders_insert timestamptz_in uid newId v db = Inr db'"
  obtains time where
    "timestamptz_column timestamptz_in (v_preferred_delivery_time v) = Inr time"
    "db' = db\<lparr>orders := orders db @ [orders_row newId v time]\<rparr>"
    "\<not> list_ex (\<lambda>row. o_id row = newId) (orders db)"
proof -
  let ?conv = "timestamptz_column timestamptz_in (v_preferred_delivery_time v)"
  from assms obtain time where conv: "?conv = Inr time"
    by (cases ?conv) (simp_all add: orders_insert_def split: if_splits)
  from assms conv have "db' = db\<lparr>orders := orders db @ [orders_row newId v time]\<rparr>"
    by (simp add: orders_insert_def Let_def split: if_splits)
  moreover from assms conv have "\<not> list_ex (\<lambda>row. o_id row = newId) (orders db)"
    by (simp add: orders_insert_def Let_def orders_row_def split: if_splits)
  ultimately show thesis using conv by (intro that)
qed

text \<open>What a successful \<^verbatim>\<open>handleSubmitOrder\<close> has stored: exactly one new row, with these values.\<close>

lemma handleSubmitOrder_placed:
  assumes run: "handleSubmitOrder timestamptz_in st session newId db = (OrderPlaced, db1)"
    and held: "cake st = Some held"
  obtains customer_id time where
    "\<not> list_ex (\<lambda>row. o_id row = newId) (orders db)"
    "timestamptz_column timestamptz_in (or_null (preferredDeliveryTime st)) = Inr time"
    "orders db1 = orders db @
       [\<lparr>o_id = newId, o_customer_id = customer_id, o_cake_id = c_id held,
         o_bakery_id = c_bakery_id held, o_quantity = quantity st,
         o_total_amount = c_price held * quantity st,
         o_special_instructions = or_null (specialInstructions st),
         o_delivery_type = deliveryType st,
         o_delivery_address =
           (if deliveryType st = ''delivery'' then Some (deliveryAddress st) else None),
         o_preferred_delivery_time = time,
         o_status = ''pending'', o_payment_status = ''pending'',
         o_stripe_session_id = None\<rparr>]"
proof -
  let ?profile = "single (filter (\<lambda>p. Some (p_user_id p) = session \<and> p_user_id p = the session)
                                 (profiles db))"
  from run held obtain user where user: "session = Some user"
    by (cases session) (simp_all add: handleSubmitOrder_def)
  from run held user obtain profile where profile: "?profile = Inr profile"
    by (cases ?profile) (simp_all add: handleSubmitOrder_def)
  let ?sent = "\<lparr>v_customer_id = p_id profile, v_cake_id = c_id held,
                  v_bakery_id = c_bakery_id held, v_quantity = quantity st,
                  v_total_amount = c_price held * quantity st,
                  v_delivery_type = deliveryType st,
                  v_delivery_address =
                    (if deliveryType st = ''delivery'' then Some (deliveryAddress st) else None),
                  v_preferred_delivery_time = or_null (preferredDeliveryTime st),
                  v_special_instructions = or_null (specialInstructions st),
                  v_status = ''pending'', v_payment_status = ''pending''\<rparr>"
  from run held user profile
  have ins: "orders_insert timestamptz_in session newId ?sent db = Inr db1"
    by (cases "orders_insert timestamptz_in session newId ?sent db")
       (simp_all add: handleSubmitOrder_def Let_def)
  from ins obtain time where
    conv: "timestamptz_column timestamptz_in (v_preferred_delivery_time ?sent) = Inr time"
    and db1: "db1 = db\<lparr>orders := orders db @ [orders_row newId ?sent time]\<rparr>"
    and fresh: "\<not> list_ex (\<lambda>row. o_id row = newId) (orders db)"
    by (rule orders_insert_Inr)
  from conv have conv': "timestamptz_column timestamptz_in (or_null (preferredDeliveryTime st)) = Inr time"
    by simp
  from db1 have appended: "orders db1 = orders db @
       [\<lparr>o_id = newId, o_customer_id = p_id profile, o_cake_id = c_id held,
         o_bakery_id = c_bakery_id held, o_quantity = quantity st,
         o_total_amount = c_price held * quantity st,
         o_special_instructions = or_null (specialInstructions st),
         o_delivery_type = deliveryType st,
         o_delivery_address =
           (if deliveryType st = ''delivery'' then Some (deliveryAddress st) else None),
         o_preferred_delivery_time = time,
         o_status = ''pending'', o_payment_status = ''pending'',
         o_stripe_session_id = None\<rparr>]"
    by (simp add: orders_row_def)
  from fresh conv' appended show thesis by (rule that)
qed

text \<open>A status update rewrites the \<^verbatim>\<open>status\<close> column only.\<close>

lemma updateOrderStatus_id_total:
  "map (\<lambda>r. (o_id r, o_total_amount r)) (orders (snd (updateOrderStatus session orderId newStatus db)))
     = map (\<lambda>r. (o_id r, o_total_amount r)) (orders db)"
  by (simp add: updateOrderStatus_def Let_def comp_def)

lemma updateOrderStatus_calls_id_total:
  "map (\<lambda>r. (o_id r, o_total_amount r)) (orders (updateOrderStatus_calls calls db))
     = map (\<lambda>r. (o_id r, o_total_amount r)) (orders db)"
proof (induction calls arbitrary: db)
  case Nil
  show ?case by simp
next
  case (Cons call calls)
  obtain session orderId newStatus where call: "call = (session, orderId, newStatus)"
    by (cases call)
  show ?case
    unfolding call updateOrderStatus_calls.simps Cons.IH
    by (rule updateOrderStatus_id_total)
qed

lemma total_amounts_of_pairs:
  "total_amounts_of orderId db
     = map snd (filter (\<lambda>p. fst p = orderId) (map (\<lambda>r. (o_id r, o_total_amount r)) (orders db)))"
  by (simp add: total_amounts_of_def filter_map comp_def)

lemma total_amounts_of_calls:
  "total_amounts_of orderId (updateOrderStatus_calls calls db) = total_amounts_of orderId db"
  by (simp only: total_amounts_of_pairs updateOrderStatus_calls_id_total)

text \<open>The example page, submitted by the customer, places the example order.\<close>

lemmas demo_submit_simps =
  handleSubmitOrder_def demo_page_def demo_db_simps demo_profiles_def demo_cake_def
  orders_insert_def orders_row_def int4_range_def decimal_10_2_range_def
  customers_can_create_orders_def delivery_type_check_def payment_status_check_def
  status_check_def or_null_def demo_timestamptz_in_def demo_db_orders_update demo_order_def

lemma demo_page_placed:
  "handleSubmitOrder demo_timestamptz_in demo_page (Some 101) 30 (demo_db [])
     = (OrderPlaced, demo_db [demo_order ''pending''])"
  by (simp add: demo_submit_simps)


lemma demo_instructions_placed:
  "handleSubmitOrder demo_timestamptz_in
     (demo_page\<lparr>preferredDeliveryTime := [], specialInstructions := ''no nuts''\<rparr>)
     (Some 101) 30 (demo_db [])
     = (OrderPlaced,
        demo_db [(demo_order ''pending'')\<lparr>o_special_instructions := Some ''no nuts''\<rparr>])"
  by (simp add: demo_submit_simps)

text \<open>
  A preferred time the store can read is stored as the instant it denotes; a text it
  cannot read makes the insert fail.
\<close>

lemma demo_time_placed:
  "handleSubmitOrder demo_timestamptz_in
     (demo_page\<lparr>preferredDeliveryTime := ''2025-08-07T10:00''\<rparr>) (Some 101) 30 (demo_db [])
     = (OrderPlaced,
        demo_db [(demo_order ''pending'')\<lparr>o_preferred_delivery_time := Some 1754560800\<rparr>])"
  by (simp add: demo_submit_simps)

lemma demo_time_refused:
  "handleSubmitOrder demo_timestamptz_in
     (demo_page\<lparr>preferredDeliveryTime := ''soon''\<rparr>) (Some 101) 30 (demo_db [])
     = (ErrorPlacingOrder (InvalidDatetimeFormat ''soon''), demo_db [])"
  by (simp add: demo_submit_simps)

section \<open>Status transitions\<close>

text \<open>
  Claim C1, as stated: from a terminal status (\<^verbatim>\<open>completed\<close> or \<^verbatim>\<open>cancelled\<close>) every
  \<^verbatim>\<open>updateOrderStatus\<close> fails with \<^verbatim>\<open>InvalidTransition\<close> and leaves the order alone.
  The code has no transition table: the seller of the bakery re-opens a completed order,
  the call succeeds and the stored status is \<^verbatim>\<open>pending\<close> again.
\<close>

theorem updateOrderStatus_reopens_completed:
  "updateOrderStatus (Some 102) 30 ''pending'' (demo_db [demo_order ''completed''])
     = (OrderStatusUpdated, demo_db [demo_order ''pending''])"
  by (simp add: updateOrderStatus_def demo_seller_owns status_check_def demo_db_simps
        demo_db_orders_update demo_order_def)

text \<open>
  Claim C1, amended: \<^verbatim>\<open>updateOrderStatus\<close> never reads the order's current status. Called
  by the seller who owns the order's bakery with a status the store's CHECK admits, it
  succeeds whatever the current status is, terminal or not, and the order then carries the
  requested status; no row appears or disappears.
\<close>

theorem updateOrderStatus_ignores_current_status:
  assumes "row \<in> set (orders db)" and "o_id row = orderId"
    and "seller_owns session db (o_bakery_id row)" and "newStatus \<in> set status_check"
  shows "\<exists>db'. updateOrderStatus session orderId newStatus db = (OrderStatusUpdated, db')
           \<and> row\<lparr>o_status := newStatus\<rparr> \<in> set (orders db')
           \<and> map o_id (orders db') = map o_id (orders db)"
proof -
  let ?touched = "\<lambda>r. o_id r = orderId \<and> seller_owns session db (o_bakery_id r)"
  let ?os = "map (\<lambda>r. if ?touched r then r\<lparr>o_status := newStatus\<rparr> else r) (orders db)"
  have run: "updateOrderStatus session orderId newStatus db
               = (OrderStatusUpdated, db\<lparr>orders := ?os\<rparr>)"
    using assms(4) by (simp add: updateOrderStatus_def)
  have "(if ?touched row then row\<lparr>o_status := newStatus\<rparr> else row) \<in> set ?os"
    using assms(1) by (intro imageI[of row "set (orders db)", folded set_map])
  then have mem: "row\<lparr>o_status := newStatus\<rparr> \<in> set ?os"
    using assms(2,3) by simp
  have ids: "map o_id ?os = map o_id (orders db)"
    by (induction "orders db") (simp_all add: comp_def)
  show ?thesis using run mem ids by simp
qed

text \<open>
  Claim C1, amended, at a concrete input: the owning seller cancels a completed order.
\<close>

theorem updateOrderStatus_ignores_current_status_witness:
  "\<exists>db'. updateOrderStatus (Some 102) 30 ''cancelled'' (demo_db [demo_order ''completed''])
            = (OrderStatusUpdated, db')
       \<and> (demo_order ''completed'')\<lparr>o_status := ''cancelled''\<rparr> \<in> set (orders db')
       \<and> map o_id (orders db') = map o_id (orders (demo_db [demo_order ''completed'']))"
proof (rule updateOrderStatus_ignores_current_status)
  show "demo_order ''completed'' \<in> set (orders (demo_db [demo_order ''completed'']))"
    by (simp add: demo_db_simps)
  show "o_id (demo_order ''completed'') = 30"
    by (simp add: demo_order_def)
  show "seller_owns (Some 102) (demo_db [demo_order ''completed''])
          (o_bakery_id (demo_order ''completed''))"
    by (simp add: demo_order_def demo_seller_owns)
  show "''cancelled'' \<in> set status_check"
    by (simp add: status_check_def)
qed

text \<open>
  Claim C3: every status of the state machine can be persisted, so the chain
  \<^verbatim>\<open>pending\<close>, \<^verbatim>\<open>confirmed\<close>, \<^verbatim>\<open>in_progress\<close>, \<^verbatim>\<open>ready\<close>, \<^verbatim>\<open>completed\<close> can be walked.
  On the code the walk stops at its second step: the page offers \<^verbatim>\<open>in_progress\<close>, the
  CHECK constraint of the table lists \<^verbatim>\<open>preparing\<close> instead. The owning seller confirms
  the pending order, then selects "In Progress": the store refuses the update and the order
  stays \<^verbatim>\<open>confirmed\<close>.
\<close>

theorem in_progress_rejected_by_store:
  "updateOrderStatus (Some 102) 30 ''confirmed'' (demo_db [demo_order ''pending''])
     = (OrderStatusUpdated, demo_db [demo_order ''confirmed''])
   \<and> updateOrderStatus (Some 102) 30 ''in_progress'' (demo_db [demo_order ''confirmed''])
     = (ErrorUpdatingOrder (CheckViolation ''orders_status_check''),
        demo_db [demo_order ''confirmed''])"
  by (simp add: updateOrderStatus_def demo_seller_owns status_check_def demo_db_simps
        demo_db_orders_update demo_order_def)

section \<open>Placing an order\<close>

text \<open>
  Claim C2, as stated: the created order's total is the cake's price at the moment of the
  call times the quantity. The handler multiplies the price of the copy the page holds.
  The customer loads the cake at 25.00; the seller then edits the price to 30.00, which is
  what a fetch at the moment of the call returns; the page that was already open places
  the order for two cakes with the total 50.00, not 60.00.
\<close>

theorem stale_price_total:
  "fetchCake (Some 101) 20 (demo_db []) = CakeLoaded demo_cake
   \<and> fetchCake (Some 101) 20 demo_db_repriced = CakeLoaded (demo_cake\<lparr>c_price := 3000\<rparr>)
   \<and> quantity demo_page = 2
   \<and> handleSubmitOrder demo_timestamptz_in demo_page (Some 101) 30 demo_db_repriced
       = (OrderPlaced, demo_db_repriced\<lparr>orders := [demo_order ''pending'']\<rparr>)
   \<and> total_amounts_of 30 (demo_db_repriced\<lparr>orders := [demo_order ''pending'']\<rparr>) = [5000]"
proof (intro conjI)
  show "fetchCake (Some 101) 20 (demo_db []) = CakeLoaded demo_cake"
    by (simp add: fetchCake_def cakes_select_policy_def demo_db_simps demo_cake_def)
  show "fetchCake (Some 101) 20 demo_db_repriced = CakeLoaded (demo_cake\<lparr>c_price := 3000\<rparr>)"
    by (simp add: fetchCake_def cakes_select_policy_def demo_db_repriced_def demo_cake_def)
  show "quantity demo_page = 2"
    by (simp add: demo_page_def)
  show "handleSubmitOrder demo_timestamptz_in demo_page (Some 101) 30 demo_db_repriced
          = (OrderPlaced, demo_db_repriced\<lparr>orders := [demo_order ''pending'']\<rparr>)"
    by (simp add: demo_submit_simps demo_db_repriced_def)
  show "total_amounts_of 30 (demo_db_repriced\<lparr>orders := [demo_order ''pending'']\<rparr>) = [5000]"
    by (simp add: total_amounts_of_def demo_order_def)
qed

text \<open>
  Claim C2, amended: whenever \<^verbatim>\<open>handleSubmitOrder\<close> places an order, the store holds
  exactly one order under the new id and its total amount is the price of the copy of the
  cake that the page holds (fetched when the page was opened, and shown to the customer)
  times the quantity; this stays so after any sequence of \<^verbatim>\<open>updateOrderStatus\<close> calls,
  by anyone, on any order, with any status, none included.
\<close>

theorem handleSubmitOrder_total_fixed:
  assumes "handleSubmitOrder timestamptz_in st session newId db = (OrderPlaced, db1)"
    and "cake st = Some held"
  shows "total_amounts_of newId (updateOrderStatus_calls calls db1) = [c_price held * quantity st]"
proof -
  from assms obtain row where fresh: "\<not> list_ex (\<lambda>row. o_id row = newId) (orders db)"
    and db1: "orders db1 = orders db @ [row]"
    and row: "o_id row = newId" "o_total_amount row = c_price held * quantity st"
    by (rule handleSubmitOrder_placed) simp
  have "total_amounts_of newId db1 = [c_price held * quantity st]"
    by (simp add: total_amounts_of_def db1 row not_list_ex_filter[OF fresh])
  then show ?thesis by (simp only: total_amounts_of_calls)
qed

text \<open>
  Claim C2, amended, at a concrete input: two cakes at 25.00 are ordered, the seller
  confirms the order and marks it ready; the total is still 50.00.
\<close>

theorem handleSubmitOrder_total_fixed_witness:
  "handleSubmitOrder demo_timestamptz_in demo_page (Some 101) 30 (demo_db [])
     = (OrderPlaced, demo_db [demo_order ''pending''])
   \<and> total_amounts_of 30
       (updateOrderStatus_calls [(Some 102, 30, ''confirmed''), (Some 102, 30, ''ready'')]
          (demo_db [demo_order ''pending''])) = [2500 * 2]"
  using handleSubmitOrder_total_fixed[OF demo_page_placed, of demo_cake
          "[(Some 102, 30, ''confirmed''), (Some 102, 30, ''ready'')]"]
        demo_page_placed
  by (simp add: demo_page_def demo_cake_def)

text \<open>
  Claim C4: a cake whose availability flag is false cannot be ordered, even from a page
  that still holds a copy fetched while the cake was available. On the code it can: the
  customer loads the cake, the seller switches it off (a fresh \<^verbatim>\<open>fetchCake\<close> now finds
  nothing), and \<^verbatim>\<open>handleSubmitOrder\<close> on the page that was already open still places the
  order, since neither the handler nor the store looks at \<^verbatim>\<open>cakes.available\<close> again.
\<close>

theorem stale_cake_still_orderable:
  "fetchCake (Some 101) 20 (demo_db []) = CakeLoaded demo_cake
   \<and> toggleAvailability (Some 102) demo_cake (demo_db []) = demo_db_unavailable
   \<and> fetchCake (Some 101) 20 demo_db_unavailable = CakeNotFound NoSingleRow
   \<and> handleSubmitOrder demo_timestamptz_in demo_page (Some 101) 30 demo_db_unavailable
       = (OrderPlaced, demo_db_unavailable\<lparr>orders := [demo_order ''pending'']\<rparr>)"
proof (intro conjI)
  show "fetchCake (Some 101) 20 (demo_db []) = CakeLoaded demo_cake"
    by (simp add: fetchCake_def cakes_select_policy_def demo_db_simps demo_cake_def)
  show "toggleAvailability (Some 102) demo_cake (demo_db []) = demo_db_unavailable"
    by (simp add: toggleAvailability_def demo_db_unavailable_def demo_db_simps demo_seller_owns
          demo_cake_def)
  show "fetchCake (Some 101) 20 demo_db_unavailable = CakeNotFound NoSingleRow"
    by (simp add: fetchCake_def cakes_select_policy_def demo_db_unavailable_def)
  show "handleSubmitOrder demo_timestamptz_in demo_page (Some 101) 30 demo_db_unavailable
          = (OrderPlaced, demo_db_unavailable\<lparr>orders := [demo_order ''pending'']\<rparr>)"
    by (simp add: demo_submit_simps demo_db_unavailable_def)
qed

text \<open>
  Claim C5: \<^verbatim>\<open>fetchCake\<close> ends in "Cake not found" both when no cake has the identifier
  and when the cake exists but is not flagged available (false, or NULL), for every caller,
  and the two failures are the same value, down to the error that is logged.
\<close>

theorem fetchCake_missing_or_unavailable:
  assumes "\<not> list_ex (\<lambda>c. c_id c = cakeId) (cakes db)
           \<or> list_all (\<lambda>c. c_id c = cakeId \<longrightarrow> c_available c \<noteq> Some True) (cakes db)"
  shows "fetchCake session cakeId db = CakeNotFound NoSingleRow"
proof -
  have "filter (\<lambda>c. cakes_select_policy session db c \<and> c_id c = cakeId
                      \<and> c_available c = Some True) (cakes db) = []"
    using assms by (intro filter_none) (auto simp: list_ex_iff list_all_iff)
  then show ?thesis by (simp add: fetchCake_def)
qed

text \<open>
  Claim C5 at a concrete input: cake 21 does not exist, cake 20 exists and is switched off;
  the customer gets the same answer for both.
\<close>

theorem fetchCake_missing_or_unavailable_witness:
  "fetchCake (Some 101) 21 demo_db_unavailable = CakeNotFound NoSingleRow
   \<and> fetchCake (Some 101) 20 demo_db_unavailable = CakeNotFound NoSingleRow
   \<and> \<not> list_ex (\<lambda>c. c_id c = 21) (cakes demo_db_unavailable)
   \<and> list_ex (\<lambda>c. c_id c = 20) (cakes demo_db_unavailable)"
proof -
  have missing: "\<not> list_ex (\<lambda>c. c_id c = 21) (cakes demo_db_unavailable)"
    by (simp add: demo_db_unavailable_def demo_cake_def)
  have unavailable:
    "list_all (\<lambda>c. c_id c = 20 \<longrightarrow> c_available c \<noteq> Some True) (cakes demo_db_unavailable)"
    by (simp add: demo_db_unavailable_def)
  have present: "list_ex (\<lambda>c. c_id c = 20) (cakes demo_db_unavailable)"
    by (simp add: demo_db_unavailable_def demo_cake_def)
  show ?thesis
    using fetchCake_missing_or_unavailable[of 21 demo_db_unavailable "Some 101"]
          fetchCake_missing_or_unavailable[of 20 demo_db_unavailable "Some 101"]
          missing unavailable present
    by blast
qed




text \<open>
  Claim C10: in every order that \<^verbatim>\<open>handleSubmitOrder\<close> places, the preferred time and the
  special instructions are stored as NULL when the page holds the empty string for them.
  Otherwise the instructions are stored as the text, never as an empty string, and the
  preferred time as the instant the store reads from the text (a column of instants
  cannot hold an empty string).
\<close>

theorem empty_optional_fields_stored_as_null:
  assumes "handleSubmitOrder timestamptz_in st session newId db = (OrderPlaced, db1)"
  shows "\<exists>row. orders db1 = orders db @ [row] \<and> o_id row = newId
           \<and> o_preferred_delivery_time row
               = (if preferredDeliveryTime st = [] then None
                  else timestamptz_in (preferredDeliveryTime st))
           \<and> (preferredDeliveryTime st \<noteq> [] \<longrightarrow> o_preferred_delivery_time row \<noteq> None)
           \<and> o_special_instructions row
               = (if specialInstructions st = [] then None else Some (specialInstructions st))
           \<and> o_special_instructions row \<noteq> Some []"
proof -
  from assms obtain held where held: "cake st = Some held"
    by (cases "cake st") (simp_all add: handleSubmitOrder_def)
  from assms held obtain row time where row: "orders db1 = orders db @ [row]" "o_id row = newId"
      "o_preferred_delivery_time row = time"
      "o_special_instructions row = or_null (specialInstructions st)"
    and conv: "timestamptz_column timestamptz_in (or_null (preferredDeliveryTime st)) = Inr time"
    by (rule handleSubmitOrder_placed) simp
  have time: "time = (if preferredDeliveryTime st = [] then None
                      else timestamptz_in (preferredDeliveryTime st))"
    using timestamptz_column_Inr(1)[OF conv] by (simp add: or_null_def)
  have given: "preferredDeliveryTime st \<noteq> [] \<longrightarrow> time \<noteq> None"
    using timestamptz_column_Inr(2)[OF conv] by (simp add: or_null_def)
  from row time given show ?thesis
    by (intro exI[of _ row]) (simp add: or_null_def)
qed

text \<open>
  Claim C10 at a concrete input: no preferred time, the instructions "no nuts".
\<close>

theorem empty_optional_fields_stored_as_null_witness:
  "handleSubmitOrder demo_timestamptz_in
     (demo_page\<lparr>preferredDeliveryTime := [], specialInstructions := ''no nuts''\<rparr>)
     (Some 101) 30 (demo_db [])
     = (OrderPlaced,
        demo_db [(demo_order ''pending'')\<lparr>o_special_instructions := Some ''no nuts''\<rparr>])
   \<and> (\<exists>row. orders (demo_db [(demo_order ''pending'')\<lparr>o_special_instructions := Some ''no nuts''\<rparr>])
            = orders (demo_db []) @ [row]
       \<and> o_id row = 30
       \<and> o_preferred_delivery_time row = None
       \<and> o_special_instructions row = Some ''no nuts'')"
  using empty_optional_fields_stored_as_null[OF demo_instructions_placed]
        demo_instructions_placed
  by auto

section \<open>Cake availability\<close>



section \<open>Profile provisioning\<close>

text \<open>
  Claim C9: when an account is created (its id and the new profile id being unused, and the
  role given at sign-up, if any, being one of the two role names), the trigger succeeds and
  adds exactly one profile; it is the only profile of that principal, its role is
  \<^verbatim>\<open>customer\<close> unless \<^verbatim>\<open>seller\<close> was given, and its display name is the one given at
  sign-up or, when none was given, the account's email.
\<close>

theorem handle_new_user_provisions_profile:
  assumes "\<not> list_ex (\<lambda>p. p_id p = newId) (profiles db)"
    and "\<not> list_ex (\<lambda>p. p_user_id p = u_id NEW) (profiles db)"
    and "raw_user_meta_data NEW ''role'' = None
         \<or> raw_user_meta_data NEW ''role'' = Some ''customer''
         \<or> raw_user_meta_data NEW ''role'' = Some ''seller''"
  shows "\<exists>db' p. handle_new_user newId NEW db = Inr db'
           \<and> profiles db' = profiles db @ [p]
           \<and> filter (\<lambda>q. p_user_id q = u_id NEW) (profiles db') = [p]
           \<and> p_role p = (if raw_user_meta_data NEW ''role'' = Some ''seller''
                          then Seller else Customer)
           \<and> p_display_name p = (case raw_user_meta_data NEW ''display_name'' of
                                    Some d \<Rightarrow> Some d
                                  | None \<Rightarrow> u_email NEW)
           \<and> p_email p = u_email NEW"
proof -
  let ?role = "if raw_user_meta_data NEW ''role'' = Some ''seller'' then Seller else Customer"
  let ?p = "\<lparr>p_id = newId, p_user_id = u_id NEW, p_role = ?role,
             p_display_name = (case raw_user_meta_data NEW ''display_name'' of
                                 Some d \<Rightarrow> Some d | None \<Rightarrow> u_email NEW),
             p_email = u_email NEW\<rparr>"
  have cast: "(case raw_user_meta_data NEW ''role'' of None \<Rightarrow> Inr Customer
               | Some r \<Rightarrow> user_role_cast r) = Inr ?role"
    using assms(3) by (auto simp: user_role_cast_def)
  have run: "handle_new_user newId NEW db = Inr (db\<lparr>profiles := profiles db @ [?p]\<rparr>)"
    using assms(1,2) by (simp add: handle_new_user_def cast profiles_insert_def)
  have one: "filter (\<lambda>q. p_user_id q = u_id NEW) (profiles db @ [?p]) = [?p]"
    using not_list_ex_filter[OF assms(2)] by simp
  from one show ?thesis
    by (intro exI[of _ "db\<lparr>profiles := profiles db @ [?p]\<rparr>"] exI[of _ ?p])
       (simp add: run)
qed

text \<open>
  Claim C9 at a concrete input: an account that signed up as a seller without a display
  name gets one seller profile named by its email.
\<close>

theorem handle_new_user_provisions_profile_witness:
  "\<exists>db' p. handle_new_user 4 demo_new_user (demo_db []) = Inr db'
      \<and> profiles db' = demo_profiles @ [p]
      \<and> filter (\<lambda>q. p_user_id q = 104) (profiles db') = [p]
      \<and> p_role p = Seller
      \<and> p_display_name p = Some ''dee@example.com''
      \<and> p_email p = Some ''dee@example.com''"
proof -
  have fresh: "\<not> list_ex (\<lambda>p. p_id p = 4) (profiles (demo_db []))"
    and new: "\<not> list_ex (\<lambda>p. p_user_id p = u_id demo_new_user) (profiles (demo_db []))"
    and role: "raw_user_meta_data demo_new_user ''role'' = None
         \<or> raw_user_meta_data demo_new_user ''role'' = Some ''customer''
         \<or> raw_user_meta_data demo_new_user ''role'' = Some ''seller''"
    by (simp_all add: demo_db_simps demo_profiles_def demo_new_user_def)
  show ?thesis
    using handle_new_user_provisions_profile[OF fresh new role]
    by (simp add: demo_db_simps demo_new_user_def)
qed

end
